theory Spec2Isabelle
  imports Complex_Main "HOL-Library.AList"
begin

section \<open>Data model (shared/schema.ts)\<close>

text \<open>
  Monetary amounts are JavaScript numbers that the store keeps as the decimal string
  \<^verbatim>\<open>n.toString()\<close> and reads back with \<^verbatim>\<open>parseFloat\<close>. The round trip is the
  identity on finite numbers, so a stored amount is modelled by the number itself, and
  numbers are modelled as exact rationals: binary rounding, NaN and the infinities are
  outside the model. Dates are kept as the submitted date string; the wall-clock field
  \<^verbatim>\<open>createdAt\<close> of a transaction is left out.
\<close>

type_synonym number = rat

record Account =
  account_id :: nat
  account_code :: string
  account_name :: string
  account_type :: string
  account_balance :: number

record InsertAccount =
  new_account_code :: string
  new_account_name :: string
  new_account_type :: string
  new_account_balance :: "number option"

record Transaction =
  transaction_id :: nat
  transaction_date :: string
  transaction_reference :: string
  transaction_description :: string
  transaction_type :: string
  transaction_totalAmount :: number

record InsertTransaction =
  new_transaction_date :: string
  new_transaction_reference :: string
  new_transaction_description :: string
  new_transaction_type :: string
  new_transaction_totalAmount :: number

record JournalEntry =
  entry_id :: nat
  entry_transactionId :: "nat option"
  entry_accountId :: "nat option"
  entry_accountCode :: string
  entry_accountName :: string
  entry_debitAmount :: number
  entry_creditAmount :: number
  entry_date :: string
  entry_reference :: string
  entry_description :: string

record InsertJournalEntry =
  new_entry_transactionId :: "nat option"
  new_entry_accountId :: "nat option"
  new_entry_accountCode :: string
  new_entry_accountName :: string
  new_entry_debitAmount :: "number option"
  new_entry_creditAmount :: "number option"
  new_entry_date :: string
  new_entry_reference :: string
  new_entry_description :: string

record SalesInvoice =
  invoice_id :: nat
  invoice_invoiceNumber :: string
  invoice_customerName :: string
  invoice_date :: string
  invoice_paymentMethod :: string
  invoice_totalAmount :: number
  invoice_paidAmount :: "number option"
  invoice_outstandingAmount :: number
  invoice_status :: string

record InsertSalesInvoice =
  new_invoice_invoiceNumber :: string
  new_invoice_customerName :: string
  new_invoice_date :: string
  new_invoice_paymentMethod :: string
  new_invoice_totalAmount :: number
  new_invoice_paidAmount :: "number option"
  new_invoice_outstandingAmount :: number
  new_invoice_status :: "string option"

record SalesItem =
  salesItem_id :: nat
  salesItem_invoiceId :: "nat option"
  salesItem_description :: string
  salesItem_quantity :: number
  salesItem_unitPrice :: number
  salesItem_cogsUnit :: number
  salesItem_totalAmount :: number

record InsertSalesItem =
  new_salesItem_invoiceId :: "nat option"
  new_salesItem_description :: string
  new_salesItem_quantity :: number
  new_salesItem_unitPrice :: number
  new_salesItem_cogsUnit :: number
  new_salesItem_totalAmount :: number

record Collection =
  collection_id :: nat
  collection_invoiceId :: "nat option"
  collection_date :: string
  collection_paymentMethod :: string
  collection_amount :: number
  collection_reference :: string
  collection_notes :: "string option"

record InsertCollection =
  new_collection_invoiceId :: "nat option"
  new_collection_date :: string
  new_collection_amount :: number
  new_collection_paymentMethod :: string
  new_collection_notes :: "string option"
  new_collection_reference :: string

record SalesReturn =
  return_id :: nat
  return_invoiceId :: "nat option"
  return_date :: string
  return_returnNumber :: string
  return_returnType :: string
  return_reason :: "string option"
  return_totalAmount :: number

record InsertSalesReturn =
  new_return_returnNumber :: string
  new_return_invoiceId :: "nat option"
  new_return_date :: string
  new_return_totalAmount :: number
  new_return_returnType :: string
  new_return_reason :: "string option"

record ReturnItem =
  returnItem_id :: nat
  returnItem_returnId :: "nat option"
  returnItem_description :: string
  returnItem_quantity :: number
  returnItem_unitPrice :: number
  returnItem_cogsUnit :: number
  returnItem_totalAmount :: number

record InsertReturnItem =
  new_returnItem_returnId :: "nat option"
  new_returnItem_description :: string
  new_returnItem_quantity :: number
  new_returnItem_unitPrice :: number
  new_returnItem_cogsUnit :: number
  new_returnItem_totalAmount :: number

record BalanceSheet =
  cash :: number
  accountsReceivable :: number
  inventory :: number
  totalAssets :: number
  accountsPayable :: number
  totalLiabilities :: number
  shareCapital :: number
  totalEquity :: number
  totalLiabEquity :: number

section \<open>The in-memory store (server/storage.ts, class MemStorage)\<close>

text \<open>
  Each \<^verbatim>\<open>Map<number, T>\<close> is an association list in insertion order:
  \<^verbatim>\<open>get\<close> is \<^const>\<open>map_of\<close>, \<^verbatim>\<open>values()\<close> is \<open>map snd\<close>, and
  \<^verbatim>\<open>set(k, v)\<close> is \<^const>\<open>AList.update\<close>, which replaces the value of a key
  that is present where it stands and appends a new key at the end.
\<close>

record MemStorage =
  accounts :: "(nat \<times> Account) list"
  transactions :: "(nat \<times> Transaction) list"
  journalEntries :: "(nat \<times> JournalEntry) list"
  salesInvoices :: "(nat \<times> SalesInvoice) list"
  salesItems :: "(nat \<times> SalesItem) list"
  collections :: "(nat \<times> Collection) list"
  salesReturns :: "(nat \<times> SalesReturn) list"
  returnItems :: "(nat \<times> ReturnItem) list"
  currentAccountId :: nat
  currentTransactionId :: nat
  currentJournalEntryId :: nat
  currentSalesInvoiceId :: nat
  currentSalesItemId :: nat
  currentCollectionId :: nat
  currentSalesReturnId :: nat
  currentReturnItemId :: nat

text \<open>
  The outcomes a request can end with. \<open>ValidationError\<close> is the exception of a zod
  \<^verbatim>\<open>parse\<close> (answered with status 400), \<open>NotFoundError\<close> the answer 404
  "Invoice not found", \<open>ExceedsOutstandingError\<close> the answer 400 "Collection amount
  exceeds outstanding balance". \<open>UnbalancedEntryError\<close> and \<open>UnknownAccountError\<close>
  are listed so that statements about them can be written; no operation below produces
  them, because no statement of the source raises them.
\<close>

datatype error =
  ValidationError
  | NotFoundError
  | ExceedsOutstandingError
  | UnbalancedEntryError
  | UnknownAccountError

text \<open>
  Every method of the store is \<^verbatim>\<open>async\<close>: run on a store it either resolves with a
  value or rejects with an error, and leaves a store behind. \<open>await m k\<close> is
  \<^verbatim>\<open>const x = await m; k(x)\<close> inside a \<^verbatim>\<open>try\<close> block: a rejection skips the
  rest, and the store stays as it was when the rejection happened.
\<close>

type_synonym 'a promise = "MemStorage \<Rightarrow> (error + 'a) \<times> MemStorage"

definition resolve :: "'a \<Rightarrow> 'a promise" where
  "resolve x = (\<lambda>s. (Inr x, s))"

definition reject :: "error \<Rightarrow> 'a promise" where
  "reject e = (\<lambda>s. (Inl e, s))"

definition await :: "'a promise \<Rightarrow> ('a \<Rightarrow> 'b promise) \<Rightarrow> 'b promise" where
  "await m k = (\<lambda>s. case m s of (Inl e, s') \<Rightarrow> (Inl e, s') | (Inr x, s') \<Rightarrow> k x s')"

text \<open>\<^verbatim>\<open>for (const x of xs) { await body(x) }\<close>\<close>

fun for_of :: "'a list \<Rightarrow> ('a \<Rightarrow> 'b promise) \<Rightarrow> unit promise" where
  "for_of [] body = resolve ()"
| "for_of (x # xs) body = await (body x) (\<lambda>_. for_of xs body)"

subsection \<open>Accounts\<close>

definition createAccount :: "InsertAccount \<Rightarrow> Account promise" where
  "createAccount account = (\<lambda>s.
     let newAccount = \<lparr> account_id = currentAccountId s,
                         account_code = new_account_code account,
                         account_name = new_account_name account,
                         account_type = new_account_type account,
                         account_balance = (case new_account_balance account of
                                              None \<Rightarrow> 0 | Some b \<Rightarrow> b) \<rparr>
     in (Inr newAccount,
         s\<lparr> currentAccountId := currentAccountId s + 1,
            accounts := AList.update (account_id newAccount) newAccount (accounts s) \<rparr>))"

definition defaultAccounts :: "InsertAccount list" where
  "defaultAccounts =
    [ \<lparr> new_account_code = ''1001'', new_account_name = ''Cash'',
        new_account_type = ''asset'', new_account_balance = Some 2375000 \<rparr>,
      \<lparr> new_account_code = ''1002'', new_account_name = ''Accounts Receivable'',
        new_account_type = ''asset'', new_account_balance = Some 0 \<rparr>,
      \<lparr> new_account_code = ''1003'', new_account_name = ''Inventory'',
        new_account_type = ''asset'', new_account_balance = Some 450000 \<rparr>,
      \<lparr> new_account_code = ''2001'', new_account_name = ''Accounts Payable'',
        new_account_type = ''liability'', new_account_balance = Some 0 \<rparr>,
      \<lparr> new_account_code = ''3001'', new_account_name = ''Share Capital - Ordinary'',
        new_account_type = ''equity'', new_account_balance = Some 2825000 \<rparr>,
      \<lparr> new_account_code = ''4001'', new_account_name = ''Sales Revenue'',
        new_account_type = ''revenue'', new_account_balance = Some 0 \<rparr>,
      \<lparr> new_account_code = ''4002'', new_account_name = ''Sales Return and Allowances'',
        new_account_type = ''revenue'', new_account_balance = Some 0 \<rparr>,
      \<lparr> new_account_code = ''5001'', new_account_name = ''Cost of Goods Sold'',
        new_account_type = ''expense'', new_account_balance = Some 0 \<rparr> ]"

text \<open>
  \<^verbatim>\<open>initializeChartOfAccounts\<close> inserts the default accounts one after the other; the
  body of its \<^verbatim>\<open>forEach\<close> is the body of \<^const>\<open>createAccount\<close>.
\<close>

definition initializeChartOfAccounts :: "MemStorage \<Rightarrow> MemStorage" where
  "initializeChartOfAccounts s = snd (for_of defaultAccounts createAccount s)"

text \<open>The constructor: empty maps, every counter at 1, then the chart of accounts.\<close>

definition MemStorage_new :: MemStorage where
  "MemStorage_new = initializeChartOfAccounts
     \<lparr> accounts = [], transactions = [], journalEntries = [], salesInvoices = [],
       salesItems = [], collections = [], salesReturns = [], returnItems = [],
       currentAccountId = 1, currentTransactionId = 1, currentJournalEntryId = 1,
       currentSalesInvoiceId = 1, currentSalesItemId = 1, currentCollectionId = 1,
       currentSalesReturnId = 1, currentReturnItemId = 1 \<rparr>"

definition getAccounts :: "Account list promise" where
  "getAccounts = (\<lambda>s. (Inr (map snd (accounts s)), s))"

definition getAccountByCode :: "string \<Rightarrow> Account option promise" where
  "getAccountByCode code = (\<lambda>s.
     (Inr (find (\<lambda>account. account_code account = code) (map snd (accounts s))), s))"

text \<open>
  \<^verbatim>\<open>account.balance = ...\<close> writes into the object that \<^verbatim>\<open>find\<close> returned, which
  is the value of the first entry of the map with that code: \<open>mutate_first\<close> is that
  write. \<^verbatim>\<open>this.accounts.set(account.id, account)\<close> then stores the object under its
  own id.
\<close>

fun mutate_first :: "('v \<Rightarrow> bool) \<Rightarrow> 'v \<Rightarrow> ('k \<times> 'v) list \<Rightarrow> ('k \<times> 'v) list" where
  "mutate_first P v' [] = []"
| "mutate_first P v' ((k, v) # al) =
     (if P v then (k, v') # al else (k, v) # mutate_first P v' al)"

definition updateAccountBalance :: "string \<Rightarrow> number \<Rightarrow> unit promise" where
  "updateAccountBalance code balance =
     await (getAccountByCode code) (\<lambda>found.
       case found of
         None \<Rightarrow> resolve ()
       | Some account \<Rightarrow> (\<lambda>s.
           let account' = account\<lparr> account_balance := balance \<rparr>
           in (Inr (),
               s\<lparr> accounts := AList.update (account_id account') account'
                    (mutate_first (\<lambda>a. account_code a = code) account' (accounts s)) \<rparr>)))"

text \<open>The expression \<^verbatim>\<open>parseFloat(account?.balance || '0')\<close> of every reader.\<close>

definition balance_or_zero :: "Account option \<Rightarrow> number" where
  "balance_or_zero found = (case found of None \<Rightarrow> 0 | Some account \<Rightarrow> account_balance account)"

subsection \<open>Transactions and journal entries\<close>

definition createTransaction :: "InsertTransaction \<Rightarrow> Transaction promise" where
  "createTransaction transaction = (\<lambda>s.
     let newTransaction = \<lparr> transaction_id = currentTransactionId s,
           transaction_date = new_transaction_date transaction,
           transaction_reference = new_transaction_reference transaction,
           transaction_description = new_transaction_description transaction,
           transaction_type = new_transaction_type transaction,
           transaction_totalAmount = new_transaction_totalAmount transaction \<rparr>
     in (Inr newTransaction,
         s\<lparr> currentTransactionId := currentTransactionId s + 1,
            transactions := AList.update (transaction_id newTransaction) newTransaction
                              (transactions s) \<rparr>))"

text \<open>
  \<^verbatim>\<open>entry.transactionId || null\<close> turns a missing id and the id 0 into null;
  \<^verbatim>\<open>entry.debitAmount || "0"\<close> turns a missing amount into 0.
\<close>

definition or_null :: "nat option \<Rightarrow> nat option" where
  "or_null x = (case x of None \<Rightarrow> None | Some n \<Rightarrow> if n = 0 then None else Some n)"

definition or_zero :: "number option \<Rightarrow> number" where
  "or_zero x = (case x of None \<Rightarrow> 0 | Some n \<Rightarrow> n)"

definition createJournalEntry :: "InsertJournalEntry \<Rightarrow> JournalEntry promise" where
  "createJournalEntry entry = (\<lambda>s.
     let newEntry = \<lparr> entry_id = currentJournalEntryId s,
           entry_transactionId = or_null (new_entry_transactionId entry),
           entry_accountId = or_null (new_entry_accountId entry),
           entry_accountCode = new_entry_accountCode entry,
           entry_accountName = new_entry_accountName entry,
           entry_debitAmount = or_zero (new_entry_debitAmount entry),
           entry_creditAmount = or_zero (new_entry_creditAmount entry),
           entry_date = new_entry_date entry,
           entry_reference = new_entry_reference entry,
           entry_description = new_entry_description entry \<rparr>
     in (Inr newEntry,
         s\<lparr> currentJournalEntryId := currentJournalEntryId s + 1,
            journalEntries := AList.update (entry_id newEntry) newEntry (journalEntries s) \<rparr>))"

text \<open>The loop of \<^verbatim>\<open>createJournalEntries\<close>, collecting the created entries in order.\<close>

fun createJournalEntries :: "InsertJournalEntry list \<Rightarrow> JournalEntry list promise" where
  "createJournalEntries [] = resolve []"
| "createJournalEntries (entry # entries) =
     await (createJournalEntry entry) (\<lambda>newEntry.
     await (createJournalEntries entries) (\<lambda>newEntries.
     resolve (newEntry # newEntries)))"

subsection \<open>Invoices, items, collections, returns\<close>

definition getSalesInvoiceById :: "nat \<Rightarrow> SalesInvoice option promise" where
  "getSalesInvoiceById k = (\<lambda>s. (Inr (map_of (salesInvoices s) k), s))"

definition createSalesInvoice :: "InsertSalesInvoice \<Rightarrow> SalesInvoice promise" where
  "createSalesInvoice invoice = (\<lambda>s.
     let newInvoice = \<lparr> invoice_id = currentSalesInvoiceId s,
           invoice_invoiceNumber = new_invoice_invoiceNumber invoice,
           invoice_customerName = new_invoice_customerName invoice,
           invoice_date = new_invoice_date invoice,
           invoice_paymentMethod = new_invoice_paymentMethod invoice,
           invoice_totalAmount = new_invoice_totalAmount invoice,
           invoice_paidAmount = new_invoice_paidAmount invoice,
           invoice_outstandingAmount = new_invoice_outstandingAmount invoice,
           invoice_status = (case new_invoice_status invoice of
                               None \<Rightarrow> ''Open'' | Some st \<Rightarrow> st) \<rparr>
     in (Inr newInvoice,
         s\<lparr> currentSalesInvoiceId := currentSalesInvoiceId s + 1,
            salesInvoices := AList.update (invoice_id newInvoice) newInvoice
                               (salesInvoices s) \<rparr>))"

definition updateSalesInvoicePayment :: "nat \<Rightarrow> number \<Rightarrow> number \<Rightarrow> string \<Rightarrow> unit promise" where
  "updateSalesInvoicePayment k paidAmount outstandingAmount status = (\<lambda>s.
     case map_of (salesInvoices s) k of
       None \<Rightarrow> (Inr (), s)
     | Some invoice \<Rightarrow>
         (Inr (),
          s\<lparr> salesInvoices := AList.update k
               (invoice\<lparr> invoice_paidAmount := Some paidAmount,
                         invoice_outstandingAmount := outstandingAmount,
                         invoice_status := status \<rparr>)
               (salesInvoices s) \<rparr>))"

definition createSalesItem :: "InsertSalesItem \<Rightarrow> SalesItem promise" where
  "createSalesItem item = (\<lambda>s.
     let newItem = \<lparr> salesItem_id = currentSalesItemId s,
           salesItem_invoiceId = new_salesItem_invoiceId item,
           salesItem_description = new_salesItem_description item,
           salesItem_quantity = new_salesItem_quantity item,
           salesItem_unitPrice = new_salesItem_unitPrice item,
           salesItem_cogsUnit = new_salesItem_cogsUnit item,
           salesItem_totalAmount = new_salesItem_totalAmount item \<rparr>
     in (Inr newItem,
         s\<lparr> currentSalesItemId := currentSalesItemId s + 1,
            salesItems := AList.update (salesItem_id newItem) newItem (salesItems s) \<rparr>))"

definition createCollection :: "InsertCollection \<Rightarrow> Collection promise" where
  "createCollection collection = (\<lambda>s.
     let newCollection = \<lparr> collection_id = currentCollectionId s,
           collection_invoiceId = new_collection_invoiceId collection,
           collection_date = new_collection_date collection,
           collection_paymentMethod = new_collection_paymentMethod collection,
           collection_amount = new_collection_amount collection,
           collection_reference = new_collection_reference collection,
           collection_notes = new_collection_notes collection \<rparr>
     in (Inr newCollection,
         s\<lparr> currentCollectionId := currentCollectionId s + 1,
            collections := AList.update (collection_id newCollection) newCollection
                             (collections s) \<rparr>))"

definition createSalesReturn :: "InsertSalesReturn \<Rightarrow> SalesReturn promise" where
  "createSalesReturn salesReturn = (\<lambda>s.
     let newReturn = \<lparr> return_id = currentSalesReturnId s,
           return_invoiceId = new_return_invoiceId salesReturn,
           return_date = new_return_date salesReturn,
           return_returnNumber = new_return_returnNumber salesReturn,
           return_returnType = new_return_returnType salesReturn,
           return_reason = new_return_reason salesReturn,
           return_totalAmount = new_return_totalAmount salesReturn \<rparr>
     in (Inr newReturn,
         s\<lparr> currentSalesReturnId := currentSalesReturnId s + 1,
            salesReturns := AList.update (return_id newReturn) newReturn (salesReturns s) \<rparr>))"

definition createReturnItem :: "InsertReturnItem \<Rightarrow> ReturnItem promise" where
  "createReturnItem item = (\<lambda>s.
     let newItem = \<lparr> returnItem_id = currentReturnItemId s,
           returnItem_returnId = new_returnItem_returnId item,
           returnItem_description = new_returnItem_description item,
           returnItem_quantity = new_returnItem_quantity item,
           returnItem_unitPrice = new_returnItem_unitPrice item,
           returnItem_cogsUnit = new_returnItem_cogsUnit item,
           returnItem_totalAmount = new_returnItem_totalAmount item \<rparr>
     in (Inr newItem,
         s\<lparr> currentReturnItemId := currentReturnItemId s + 1,
            returnItems := AList.update (returnItem_id newItem) newItem (returnItems s) \<rparr>))"

subsection \<open>The balance sheet\<close>

definition getBalanceSheet :: "BalanceSheet promise" where
  "getBalanceSheet =
     await (getAccountByCode ''1001'') (\<lambda>cashAccount.
     await (getAccountByCode ''1002'') (\<lambda>accountsReceivableAccount.
     await (getAccountByCode ''1003'') (\<lambda>inventoryAccount.
     await (getAccountByCode ''2001'') (\<lambda>accountsPayableAccount.
     await (getAccountByCode ''3001'') (\<lambda>shareCapitalAccount.
       let cashBalance = balance_or_zero cashAccount;
           arBalance = balance_or_zero accountsReceivableAccount;
           inventoryBalance = balance_or_zero inventoryAccount;
           apBalance = balance_or_zero accountsPayableAccount;
           scBalance = balance_or_zero shareCapitalAccount;
           totalAssets = cashBalance + arBalance + inventoryBalance;
           totalLiabilities = apBalance;
           totalEquity = scBalance
       in resolve \<lparr> cash = cashBalance,
                    accountsReceivable = arBalance,
                    inventory = inventoryBalance,
                    totalAssets = totalAssets,
                    accountsPayable = apBalance,
                    totalLiabilities = totalLiabilities,
                    shareCapital = scBalance,
                    totalEquity = totalEquity,
                    totalLiabEquity = totalLiabilities + totalEquity \<rparr>)))))"

section \<open>The request handlers (server/routes.ts, registerRoutes)\<close>

text \<open>
  A request body is modelled after JSON decoding, with the types the zod schema asks for;
  the schema predicates below are the value constraints that are left (\<^verbatim>\<open>min(1)\<close>,
  \<^verbatim>\<open>positive()\<close>, \<^verbatim>\<open>enum\<close>). An invoice id is a key of the invoice map, a natural
  number. \<^verbatim>\<open>saveToFile\<close> writes the store to disk and is not modelled.
\<close>

record ItemForm =
  item_description :: string
  item_quantity :: number
  item_unitPrice :: number
  item_cogsUnit :: number

record SalesForm =
  sale_invoiceNumber :: string
  sale_customerName :: string
  sale_date :: string
  sale_paymentMethod :: string
  sale_items :: "ItemForm list"

record CollectionForm =
  coll_invoiceId :: nat
  coll_date :: string
  coll_amount :: number
  coll_paymentMethod :: string
  coll_notes :: "string option"

record ReturnForm =
  ret_returnNumber :: string
  ret_invoiceId :: nat
  ret_date :: string
  ret_returnType :: string
  ret_reason :: "string option"
  ret_items :: "ItemForm list"

definition itemSchema :: "ItemForm \<Rightarrow> bool" where
  "itemSchema item \<longleftrightarrow>
     item_description item \<noteq> [] \<and> 0 < item_quantity item \<and>
     0 < item_unitPrice item \<and> 0 < item_cogsUnit item"

definition salesFormSchema :: "SalesForm \<Rightarrow> bool" where
  "salesFormSchema data \<longleftrightarrow>
     sale_invoiceNumber data \<noteq> [] \<and> sale_customerName data \<noteq> [] \<and>
     (sale_paymentMethod data = ''cash'' \<or> sale_paymentMethod data = ''credit'') \<and>
     list_all itemSchema (sale_items data) \<and> sale_items data \<noteq> []"

definition collectionFormSchema :: "CollectionForm \<Rightarrow> bool" where
  "collectionFormSchema data \<longleftrightarrow> 0 < coll_amount data"

definition returnFormSchema :: "ReturnForm \<Rightarrow> bool" where
  "returnFormSchema data \<longleftrightarrow>
     ret_returnNumber data \<noteq> [] \<and>
     (ret_returnType data = ''return'' \<or> ret_returnType data = ''allowance'') \<and>
     list_all itemSchema (ret_items data) \<and> ret_items data \<noteq> []"

text \<open>\<^verbatim>\<open>schema.parse(req.body)\<close> throws on a body the schema refuses.\<close>

definition parse :: "('a \<Rightarrow> bool) \<Rightarrow> 'a \<Rightarrow> 'a promise" where
  "parse schema body = (if schema body then resolve body else reject ValidationError)"

text \<open>\<^verbatim>\<open>x || ''\<close> on an optional string.\<close>

definition or_empty :: "string option \<Rightarrow> string" where
  "or_empty x = (case x of None \<Rightarrow> [] | Some t \<Rightarrow> t)"

subsection \<open>POST /api/sales\<close>

definition postSales :: "SalesForm \<Rightarrow> SalesInvoice promise" where
  "postSales body =
     await (parse salesFormSchema body) (\<lambda>data.
     let totalAmount = foldl (\<lambda>sum item. sum + item_quantity item * item_unitPrice item) 0
                         (sale_items data);
         totalCOGS = foldl (\<lambda>sum item. sum + item_quantity item * item_cogsUnit item) 0
                       (sale_items data)
     in
     await (createSalesInvoice
       \<lparr> new_invoice_invoiceNumber = sale_invoiceNumber data,
         new_invoice_customerName = sale_customerName data,
         new_invoice_date = sale_date data,
         new_invoice_paymentMethod = sale_paymentMethod data,
         new_invoice_totalAmount = totalAmount,
         new_invoice_paidAmount =
           Some (if sale_paymentMethod data = ''cash'' then totalAmount else 0),
         new_invoice_outstandingAmount =
           (if sale_paymentMethod data = ''cash'' then 0 else totalAmount),
         new_invoice_status =
           Some (if sale_paymentMethod data = ''cash'' then ''paid'' else ''open'') \<rparr>)
       (\<lambda>invoice.
     await (for_of (sale_items data) (\<lambda>item. createSalesItem
       \<lparr> new_salesItem_invoiceId = Some (invoice_id invoice),
         new_salesItem_description = item_description item,
         new_salesItem_quantity = item_quantity item,
         new_salesItem_unitPrice = item_unitPrice item,
         new_salesItem_cogsUnit = item_cogsUnit item,
         new_salesItem_totalAmount = item_quantity item * item_unitPrice item \<rparr>))
       (\<lambda>_.
     await (createTransaction
       \<lparr> new_transaction_date = sale_date data,
         new_transaction_reference = sale_invoiceNumber data,
         new_transaction_description = ''Sale to '' @ sale_customerName data,
         new_transaction_type = ''sale'',
         new_transaction_totalAmount = totalAmount \<rparr>)
       (\<lambda>transaction.
     let journalEntries =
       [ (if sale_paymentMethod data = ''cash'' then
            \<lparr> new_entry_transactionId = Some (transaction_id transaction),
              new_entry_accountId = None,
              new_entry_accountCode = ''1001'',
              new_entry_accountName = ''Cash'',
              new_entry_debitAmount = Some totalAmount,
              new_entry_creditAmount = Some 0,
              new_entry_date = sale_date data,
              new_entry_reference = sale_invoiceNumber data,
              new_entry_description = ''Sale to '' @ sale_customerName data \<rparr>
          else
            \<lparr> new_entry_transactionId = Some (transaction_id transaction),
              new_entry_accountId = None,
              new_entry_accountCode = ''1002'',
              new_entry_accountName = ''Accounts Receivable'',
              new_entry_debitAmount = Some totalAmount,
              new_entry_creditAmount = Some 0,
              new_entry_date = sale_date data,
              new_entry_reference = sale_invoiceNumber data,
              new_entry_description = ''Sale to '' @ sale_customerName data \<rparr>),
         \<lparr> new_entry_transactionId = Some (transaction_id transaction),
           new_entry_accountId = None,
           new_entry_accountCode = ''4001'',
           new_entry_accountName = ''Sales Revenue'',
           new_entry_debitAmount = Some 0,
           new_entry_creditAmount = Some totalAmount,
           new_entry_date = sale_date data,
           new_entry_reference = sale_invoiceNumber data,
           new_entry_description = ''Sale to '' @ sale_customerName data \<rparr>,
         \<lparr> new_entry_transactionId = Some (transaction_id transaction),
           new_entry_accountId = None,
           new_entry_accountCode = ''5001'',
           new_entry_accountName = ''Cost of Goods Sold'',
           new_entry_debitAmount = Some totalCOGS,
           new_entry_creditAmount = Some 0,
           new_entry_date = sale_date data,
           new_entry_reference = sale_invoiceNumber data,
           new_entry_description = ''COGS for sale to '' @ sale_customerName data \<rparr>,
         \<lparr> new_entry_transactionId = Some (transaction_id transaction),
           new_entry_accountId = None,
           new_entry_accountCode = ''1003'',
           new_entry_accountName = ''Inventory'',
           new_entry_debitAmount = Some 0,
           new_entry_creditAmount = Some totalCOGS,
           new_entry_date = sale_date data,
           new_entry_reference = sale_invoiceNumber data,
           new_entry_description = ''COGS for sale to '' @ sale_customerName data \<rparr> ]
     in
     await (createJournalEntries journalEntries) (\<lambda>_.
     await (if sale_paymentMethod data = ''cash'' then
              await (getAccountByCode ''1001'') (\<lambda>cashAccount.
              updateAccountBalance ''1001'' (balance_or_zero cashAccount + totalAmount))
            else
              await (getAccountByCode ''1002'') (\<lambda>arAccount.
              updateAccountBalance ''1002'' (balance_or_zero arAccount + totalAmount)))
       (\<lambda>_.
     await (getAccountByCode ''1003'') (\<lambda>inventoryAccount.
     await (updateAccountBalance ''1003'' (balance_or_zero inventoryAccount - totalCOGS))
       (\<lambda>_.
     await (getAccountByCode ''4001'') (\<lambda>salesRevenueAccount.
     await (updateAccountBalance ''4001'' (balance_or_zero salesRevenueAccount + totalAmount))
       (\<lambda>_.
     await (getAccountByCode ''5001'') (\<lambda>cogsAccount.
     await (updateAccountBalance ''5001'' (balance_or_zero cogsAccount + totalCOGS))
       (\<lambda>_.
     let netIncome = totalAmount - totalCOGS in
     await (getAccountByCode ''3001'') (\<lambda>shareCapitalAccount.
     await (updateAccountBalance ''3001'' (balance_or_zero shareCapitalAccount + netIncome))
       (\<lambda>_.
     resolve invoice))))))))))))))"

subsection \<open>POST /api/collections\<close>

definition postCollections :: "CollectionForm \<Rightarrow> Collection promise" where
  "postCollections body =
     await (parse collectionFormSchema body) (\<lambda>data.
     await (getSalesInvoiceById (coll_invoiceId data)) (\<lambda>found.
     case found of
       None \<Rightarrow> reject NotFoundError
     | Some invoice \<Rightarrow>
     let currentOutstanding = invoice_outstandingAmount invoice in
     if coll_amount data > currentOutstanding then reject ExceedsOutstandingError
     else
     await (createCollection
       \<lparr> new_collection_invoiceId = Some (coll_invoiceId data),
         new_collection_date = coll_date data,
         new_collection_amount = coll_amount data,
         new_collection_paymentMethod = coll_paymentMethod data,
         new_collection_notes = Some (or_empty (coll_notes data)),
         new_collection_reference = ''COL-'' @ invoice_invoiceNumber invoice \<rparr>)
       (\<lambda>collection.
     let newPaidAmount = or_zero (invoice_paidAmount invoice) + coll_amount data;
         newOutstandingAmount = currentOutstanding - coll_amount data;
         newStatus = (if newOutstandingAmount = 0 then ''paid'' else ''partial'')
     in
     await (updateSalesInvoicePayment (coll_invoiceId data) newPaidAmount
              newOutstandingAmount newStatus) (\<lambda>_.
     await (createTransaction
       \<lparr> new_transaction_date = coll_date data,
         new_transaction_reference = ''COL-'' @ invoice_invoiceNumber invoice,
         new_transaction_description = ''Collection from '' @ invoice_customerName invoice,
         new_transaction_type = ''collection'',
         new_transaction_totalAmount = coll_amount data \<rparr>)
       (\<lambda>transaction.
     let journalEntries =
       [ \<lparr> new_entry_transactionId = Some (transaction_id transaction),
           new_entry_accountId = None,
           new_entry_accountCode = ''1001'',
           new_entry_accountName = ''Cash'',
           new_entry_debitAmount = Some (coll_amount data),
           new_entry_creditAmount = Some 0,
           new_entry_date = coll_date data,
           new_entry_reference = ''COL-'' @ invoice_invoiceNumber invoice,
           new_entry_description = ''Collection from '' @ invoice_customerName invoice \<rparr>,
         \<lparr> new_entry_transactionId = Some (transaction_id transaction),
           new_entry_accountId = None,
           new_entry_accountCode = ''1002'',
           new_entry_accountName = ''Accounts Receivable'',
           new_entry_debitAmount = Some 0,
           new_entry_creditAmount = Some (coll_amount data),
           new_entry_date = coll_date data,
           new_entry_reference = ''COL-'' @ invoice_invoiceNumber invoice,
           new_entry_description = ''Collection from '' @ invoice_customerName invoice \<rparr> ]
     in
     await (createJournalEntries journalEntries) (\<lambda>_.
     await (getAccountByCode ''1001'') (\<lambda>cashAccount.
     await (updateAccountBalance ''1001'' (balance_or_zero cashAccount + coll_amount data))
       (\<lambda>_.
     await (getAccountByCode ''1002'') (\<lambda>arAccount.
     await (updateAccountBalance ''1002'' (balance_or_zero arAccount - coll_amount data))
       (\<lambda>_.
     resolve collection))))))))))"

subsection \<open>POST /api/sales-returns\<close>

definition postSalesReturns :: "ReturnForm \<Rightarrow> SalesReturn promise" where
  "postSalesReturns body =
     await (parse returnFormSchema body) (\<lambda>data.
     await (getSalesInvoiceById (ret_invoiceId data)) (\<lambda>found.
     case found of
       None \<Rightarrow> reject NotFoundError
     | Some invoice \<Rightarrow>
     let totalReturnAmount =
           foldl (\<lambda>sum item. sum + item_quantity item * item_unitPrice item) 0 (ret_items data);
         totalReturnCOGS =
           foldl (\<lambda>sum item. sum + item_quantity item * item_cogsUnit item) 0 (ret_items data)
     in
     await (createSalesReturn
       \<lparr> new_return_returnNumber = ret_returnNumber data,
         new_return_invoiceId = Some (ret_invoiceId data),
         new_return_date = ret_date data,
         new_return_totalAmount = totalReturnAmount,
         new_return_returnType = ret_returnType data,
         new_return_reason = Some (or_empty (ret_reason data)) \<rparr>)
       (\<lambda>salesReturn.
     await (for_of (ret_items data) (\<lambda>item. createReturnItem
       \<lparr> new_returnItem_returnId = Some (return_id salesReturn),
         new_returnItem_description = item_description item,
         new_returnItem_quantity = item_quantity item,
         new_returnItem_unitPrice = item_unitPrice item,
         new_returnItem_cogsUnit = item_cogsUnit item,
         new_returnItem_totalAmount = item_quantity item * item_unitPrice item \<rparr>))
       (\<lambda>_.
     await (createTransaction
       \<lparr> new_transaction_date = ret_date data,
         new_transaction_reference = ret_returnNumber data,
         new_transaction_description = ''Return from '' @ invoice_customerName invoice,
         new_transaction_type = ''return'',
         new_transaction_totalAmount = totalReturnAmount \<rparr>)
       (\<lambda>transaction.
     let journalEntries =
       [ \<lparr> new_entry_transactionId = Some (transaction_id transaction),
           new_entry_accountId = None,
           new_entry_accountCode = ''4002'',
           new_entry_accountName = ''Sales Return and Allowances'',
           new_entry_debitAmount = Some totalReturnAmount,
           new_entry_creditAmount = Some 0,
           new_entry_date = ret_date data,
           new_entry_reference = ret_returnNumber data,
           new_entry_description = ''Return from '' @ invoice_customerName invoice \<rparr>,
         (if invoice_paymentMethod invoice = ''cash'' then
            \<lparr> new_entry_transactionId = Some (transaction_id transaction),
              new_entry_accountId = None,
              new_entry_accountCode = ''1001'',
              new_entry_accountName = ''Cash'',
              new_entry_debitAmount = Some 0,
              new_entry_creditAmount = Some totalReturnAmount,
              new_entry_date = ret_date data,
              new_entry_reference = ret_returnNumber data,
              new_entry_description = ''Return from '' @ invoice_customerName invoice \<rparr>
          else
            \<lparr> new_entry_transactionId = Some (transaction_id transaction),
              new_entry_accountId = None,
              new_entry_accountCode = ''1002'',
              new_entry_accountName = ''Accounts Receivable'',
              new_entry_debitAmount = Some 0,
              new_entry_creditAmount = Some totalReturnAmount,
              new_entry_date = ret_date data,
              new_entry_reference = ret_returnNumber data,
              new_entry_description = ''Return from '' @ invoice_customerName invoice \<rparr>),
         \<lparr> new_entry_transactionId = Some (transaction_id transaction),
           new_entry_accountId = None,
           new_entry_accountCode = ''1003'',
           new_entry_accountName = ''Inventory'',
           new_entry_debitAmount = Some totalReturnCOGS,
           new_entry_creditAmount = Some 0,
           new_entry_date = ret_date data,
           new_entry_reference = ret_returnNumber data,
           new_entry_description = ''Return inventory from '' @ invoice_customerName invoice \<rparr>,
         \<lparr> new_entry_transactionId = Some (transaction_id transaction),
           new_entry_accountId = None,
           new_entry_accountCode = ''5001'',
           new_entry_accountName = ''Cost of Goods Sold'',
           new_entry_debitAmount = Some 0,
           new_entry_creditAmount = Some totalReturnCOGS,
           new_entry_date = ret_date data,
           new_entry_reference = ret_returnNumber data,
           new_entry_description = ''Return COGS from '' @ invoice_customerName invoice \<rparr> ]
     in
     await (createJournalEntries journalEntries) (\<lambda>_.
     await (if invoice_paymentMethod invoice = ''cash'' then
              await (getAccountByCode ''1001'') (\<lambda>cashAccount.
              updateAccountBalance ''1001'' (balance_or_zero cashAccount - totalReturnAmount))
            else
              await (getAccountByCode ''1002'') (\<lambda>arAccount.
              updateAccountBalance ''1002'' (balance_or_zero arAccount - totalReturnAmount)))
       (\<lambda>_.
     await (getAccountByCode ''1003'') (\<lambda>inventoryAccount.
     await (updateAccountBalance ''1003'' (balance_or_zero inventoryAccount + totalReturnCOGS))
       (\<lambda>_.
     await (getAccountByCode ''4002'') (\<lambda>salesReturnsAccount.
     await (updateAccountBalance ''4002''
              (balance_or_zero salesReturnsAccount + totalReturnAmount))
       (\<lambda>_.
     await (getAccountByCode ''5001'') (\<lambda>cogsAccount.
     await (updateAccountBalance ''5001'' (balance_or_zero cogsAccount - totalReturnCOGS))
       (\<lambda>_.
     let netReduction = totalReturnAmount - totalReturnCOGS in
     await (getAccountByCode ''3001'') (\<lambda>shareCapitalAccount.
     await (updateAccountBalance ''3001'' (balance_or_zero shareCapitalAccount - netReduction))
       (\<lambda>_.
     resolve salesReturn)))))))))))))))"

section \<open>Business events and reachable stores\<close>

text \<open>
  The three posting routes as one step function, and the stores the server can be in:
  the freshly constructed store and every store a sequence of requests leaves behind.
  Replacing the store from a file or an uploaded snapshot is not a step.
\<close>

datatype event =
  SubmitSale SalesForm
  | SubmitCollection CollectionForm
  | SubmitReturn ReturnForm

datatype receipt =
  SaleReceipt SalesInvoice
  | CollectionReceipt Collection
  | ReturnReceipt SalesReturn

fun submit :: "event \<Rightarrow> receipt promise" where
  "submit (SubmitSale body) = await (postSales body) (\<lambda>invoice. resolve (SaleReceipt invoice))"
| "submit (SubmitCollection body) =
     await (postCollections body) (\<lambda>collection. resolve (CollectionReceipt collection))"
| "submit (SubmitReturn body) =
     await (postSalesReturns body) (\<lambda>salesReturn. resolve (ReturnReceipt salesReturn))"

inductive reachable :: "MemStorage \<Rightarrow> bool" where
  fresh: "reachable MemStorage_new"
| step: "reachable s \<Longrightarrow> reachable (snd (submit ev s))"

section \<open>Notions used in the statements\<close>


text \<open>The two aggregates every sale and return computes from its item lines.\<close>

definition totalOf :: "ItemForm list \<Rightarrow> number" where
  "totalOf items = foldl (\<lambda>sum item. sum + item_quantity item * item_unitPrice item) 0 items"


text \<open>The journal entry that \<^const>\<open>createJournalEntry\<close> builds for a given id.\<close>

definition newEntry :: "nat \<Rightarrow> InsertJournalEntry \<Rightarrow> JournalEntry" where
  "newEntry n entry =
     \<lparr> entry_id = n,
       entry_transactionId = or_null (new_entry_transactionId entry),
       entry_accountId = or_null (new_entry_accountId entry),
       entry_accountCode = new_entry_accountCode entry,
       entry_accountName = new_entry_accountName entry,
       entry_debitAmount = or_zero (new_entry_debitAmount entry),
       entry_creditAmount = or_zero (new_entry_creditAmount entry),
       entry_date = new_entry_date entry,
       entry_reference = new_entry_reference entry,
       entry_description = new_entry_description entry \<rparr>"

text \<open>
  The journal lines tagged with a transaction id, and their debit and credit totals.
\<close>

definition entriesOf :: "nat \<Rightarrow> (nat \<times> JournalEntry) list \<Rightarrow> JournalEntry list" where
  "entriesOf tid al = filter (\<lambda>e. entry_transactionId e = Some tid) (map snd al)"

definition debitTotal :: "nat \<Rightarrow> MemStorage \<Rightarrow> number" where
  "debitTotal tid s = sum_list (map entry_debitAmount (entriesOf tid (journalEntries s)))"

definition creditTotal :: "nat \<Rightarrow> MemStorage \<Rightarrow> number" where
  "creditTotal tid s = sum_list (map entry_creditAmount (entriesOf tid (journalEntries s)))"




section \<open>Notions used in the proofs\<close>

text \<open>The first account with a code, and the accounts after \<^const>\<open>updateAccountBalance\<close>.\<close>

definition lookup :: "string \<Rightarrow> (nat \<times> Account) list \<Rightarrow> Account option" where
  "lookup code al = find (\<lambda>account. account_code account = code) (map snd al)"

definition setbal :: "string \<Rightarrow> number \<Rightarrow> (nat \<times> Account) list \<Rightarrow> (nat \<times> Account) list" where
  "setbal code b al =
     (case lookup code al of
        None \<Rightarrow> al
      | Some a \<Rightarrow> AList.update (account_id a) (a\<lparr> account_balance := b \<rparr>)
                  (mutate_first (\<lambda>x. account_code x = code) (a\<lparr> account_balance := b \<rparr>) al))"



text \<open>Inserting a batch of new records under consecutive ids, as the creation loops do.\<close>

fun insert_all :: "nat \<Rightarrow> (nat \<Rightarrow> 'a \<Rightarrow> 'v) \<Rightarrow> 'a list \<Rightarrow> (nat \<times> 'v) list \<Rightarrow> (nat \<times> 'v) list" where
  "insert_all n mk [] al = al"
| "insert_all n mk (x # xs) al = insert_all (Suc n) mk xs (AList.update n (mk n x) al)"

text \<open>The item records that the creation methods build for a given id.\<close>

definition newSalesItem :: "nat \<Rightarrow> InsertSalesItem \<Rightarrow> SalesItem" where
  "newSalesItem n item =
     \<lparr> salesItem_id = n,
       salesItem_invoiceId = new_salesItem_invoiceId item,
       salesItem_description = new_salesItem_description item,
       salesItem_quantity = new_salesItem_quantity item,
       salesItem_unitPrice = new_salesItem_unitPrice item,
       salesItem_cogsUnit = new_salesItem_cogsUnit item,
       salesItem_totalAmount = new_salesItem_totalAmount item \<rparr>"

definition newReturnItem :: "nat \<Rightarrow> InsertReturnItem \<Rightarrow> ReturnItem" where
  "newReturnItem n item =
     \<lparr> returnItem_id = n,
       returnItem_returnId = new_returnItem_returnId item,
       returnItem_description = new_returnItem_description item,
       returnItem_quantity = new_returnItem_quantity item,
       returnItem_unitPrice = new_returnItem_unitPrice item,
       returnItem_cogsUnit = new_returnItem_cogsUnit item,
       returnItem_totalAmount = new_returnItem_totalAmount item \<rparr>"

text \<open>The requests that pass every check of their handler.\<close>

definition collectible :: "CollectionForm \<Rightarrow> MemStorage \<Rightarrow> bool" where
  "collectible d s \<longleftrightarrow>
     collectionFormSchema d \<and>
     (case map_of (salesInvoices s) (coll_invoiceId d) of
        None \<Rightarrow> False
      | Some invoice \<Rightarrow> coll_amount d \<le> invoice_outstandingAmount invoice)"

definition returnable :: "ReturnForm \<Rightarrow> MemStorage \<Rightarrow> bool" where
  "returnable d s \<longleftrightarrow>
     returnFormSchema d \<and> map_of (salesInvoices s) (ret_invoiceId d) \<noteq> None"



text \<open>
  The journal of every reachable store: ids below the counter, and for every transaction
  id equal debit and credit totals.
\<close>

definition journal_ok :: "(nat \<times> JournalEntry) list \<Rightarrow> nat \<Rightarrow> bool" where
  "journal_ok al n \<longleftrightarrow>
     list_all (\<lambda>(k, e). k < n) al \<and>
     (\<forall>tid. sum_list (map entry_debitAmount (entriesOf tid al)) =
            sum_list (map entry_creditAmount (entriesOf tid al)))"


section \<open>Example data\<close>

text \<open>A batch of a single debit line of 100 with no credit line.\<close>

definition lone_debit :: "InsertJournalEntry list" where
  "lone_debit =
     [ \<lparr> new_entry_transactionId = Some 1, new_entry_accountId = None,
         new_entry_accountCode = ''1001'', new_entry_accountName = ''Cash'',
         new_entry_debitAmount = Some 100, new_entry_creditAmount = Some 0,
         new_entry_date = ''2025-06-29'', new_entry_reference = ''INV-1'',
         new_entry_description = ''Sale to Acme'' \<rparr> ]"


definition credit_sale_100 :: SalesForm where
  "credit_sale_100 =
     \<lparr> sale_invoiceNumber = ''INV-1'', sale_customerName = ''Acme'',
       sale_date = ''2025-06-29'', sale_paymentMethod = ''credit'',
       sale_items = [ \<lparr> item_description = ''Widget'', item_quantity = 1,
                        item_unitPrice = 100, item_cogsUnit = 40 \<rparr> ] \<rparr>"

definition collection_150 :: CollectionForm where
  "collection_150 =
     \<lparr> coll_invoiceId = 1, coll_date = ''2025-06-30'', coll_amount = 150,
       coll_paymentMethod = ''cash'', coll_notes = None \<rparr>"

definition return_one_unit :: ReturnForm where
  "return_one_unit =
     \<lparr> ret_returnNumber = ''RET-1'', ret_invoiceId = 1, ret_date = ''2025-07-01'',
       ret_returnType = ''return'', ret_reason = None,
       ret_items = [ \<lparr> item_description = ''Widget'', item_quantity = 1,
                       item_unitPrice = 100, item_cogsUnit = 40 \<rparr> ] \<rparr>"

text \<open>The store after the credit sale, and after a collection of 30 against its invoice.\<close>

definition store_after_credit_sale :: MemStorage where
  "store_after_credit_sale = snd (postSales credit_sale_100 MemStorage_new)"



section \<open>Running the store operations\<close>

lemmas run_defs = resolve_def reject_def await_def

lemma fresh_store:
  "MemStorage_new =
    \<lparr> accounts =
       [(1, \<lparr>account_id = 1, account_code = ''1001'', account_name = ''Cash'',
             account_type = ''asset'', account_balance = 2375000\<rparr>),
        (2, \<lparr>account_id = 2, account_code = ''1002'', account_name = ''Accounts Receivable'',
             account_type = ''asset'', account_balance = 0\<rparr>),
        (3, \<lparr>account_id = 3, account_code = ''1003'', account_name = ''Inventory'',
             account_type = ''asset'', account_balance = 450000\<rparr>),
        (4, \<lparr>account_id = 4, account_code = ''2001'', account_name = ''Accounts Payable'',
             account_type = ''liability'', account_balance = 0\<rparr>),
        (5, \<lparr>account_id = 5, account_code = ''3001'',
             account_name = ''Share Capital - Ordinary'',
             account_type = ''equity'', account_balance = 2825000\<rparr>),
        (6, \<lparr>account_id = 6, account_code = ''4001'', account_name = ''Sales Revenue'',
             account_type = ''revenue'', account_balance = 0\<rparr>),
        (7, \<lparr>account_id = 7, account_code = ''4002'',
             account_name = ''Sales Return and Allowances'',
             account_type = ''revenue'', account_balance = 0\<rparr>),
        (8, \<lparr>account_id = 8, account_code = ''5001'', account_name = ''Cost of Goods Sold'',
             account_type = ''expense'', account_balance = 0\<rparr>)],
      transactions = [], journalEntries = [], salesInvoices = [],
      salesItems = [], collections = [], salesReturns = [], returnItems = [],
      currentAccountId = 9, currentTransactionId = 1, currentJournalEntryId = 1,
      currentSalesInvoiceId = 1, currentSalesItemId = 1, currentCollectionId = 1,
      currentSalesReturnId = 1, currentReturnItemId = 1 \<rparr>"
  by (simp add: MemStorage_new_def initializeChartOfAccounts_def defaultAccounts_def
      createAccount_def run_defs Let_def)

lemma getAccountByCode_run: "getAccountByCode c s = (Inr (lookup c (accounts s)), s)"
  by (simp add: getAccountByCode_def lookup_def)

lemma updateAccountBalance_run:
  "updateAccountBalance c b s = (Inr (), s\<lparr> accounts := setbal c b (accounts s) \<rparr>)"
  by (simp add: updateAccountBalance_def getAccountByCode_run run_defs setbal_def Let_def
      split: option.splits)

lemma for_of_createSalesItem:
  "for_of items (\<lambda>item. createSalesItem (f item)) s =
     (Inr (), s\<lparr> currentSalesItemId := currentSalesItemId s + length items,
                 salesItems := insert_all (currentSalesItemId s)
                                 (\<lambda>n item. newSalesItem n (f item)) items (salesItems s) \<rparr>)"
  by (induction items arbitrary: s)
     (simp_all add: run_defs createSalesItem_def newSalesItem_def Let_def)

lemma for_of_createReturnItem:
  "for_of items (\<lambda>item. createReturnItem (f item)) s =
     (Inr (), s\<lparr> currentReturnItemId := currentReturnItemId s + length items,
                 returnItems := insert_all (currentReturnItemId s)
                                  (\<lambda>n item. newReturnItem n (f item)) items (returnItems s) \<rparr>)"
  by (induction items arbitrary: s)
     (simp_all add: run_defs createReturnItem_def newReturnItem_def Let_def)

lemma createJournalEntries_run:
  "createJournalEntries es s =
     (Inr (map2 newEntry [currentJournalEntryId s ..< currentJournalEntryId s + length es] es),
      s\<lparr> currentJournalEntryId := currentJournalEntryId s + length es,
         journalEntries := insert_all (currentJournalEntryId s) newEntry es (journalEntries s) \<rparr>)"
proof (induction es arbitrary: s)
  case Nil
  then show ?case by (simp add: run_defs)
next
  case (Cons e es)
  show ?case
    by (simp add: run_defs createJournalEntry_def Cons.IH Let_def newEntry_def upt_conv_Cons
        del: upt_Suc)
qed

lemmas exec_simps = run_defs Let_def parse_def getAccountByCode_run updateAccountBalance_run
  createJournalEntries_run for_of_createSalesItem for_of_createReturnItem
  createSalesInvoice_def createTransaction_def createCollection_def createSalesReturn_def
  getSalesInvoiceById_def updateSalesInvoicePayment_def

subsection \<open>Batches inserted under consecutive ids\<close>

lemma map_of_insert_all_below:
  "k < n \<Longrightarrow> map_of (insert_all n mk xs al) k = map_of al k"
  by (induction xs arbitrary: n al) (simp_all add: update_conv')

lemma map_of_insert_all_new:
  "i < length xs \<Longrightarrow> map_of (insert_all n mk xs al) (n + i) = Some (mk (n + i) (xs ! i))"
proof (induction xs arbitrary: n al i)
  case Nil
  then show ?case by simp
next
  case (Cons x xs)
  show ?case
  proof (cases i)
    case 0
    then show ?thesis by (simp add: map_of_insert_all_below update_conv')
  next
    case (Suc j)
    with Cons.prems have "j < length xs" by simp
    from Cons.IH[OF this, of "Suc n"] Suc show ?thesis by simp
  qed
qed

subsection \<open>Reading and writing account balances\<close>












subsection \<open>What each handler does to the accounts\<close>







lemma snd_submit: "snd (await m (\<lambda>x. resolve (f x)) s) = snd (m s)"
  by (simp add: run_defs split: prod.splits sum.splits)







subsection \<open>What a sale answers and stores\<close>

lemma postSales_result:
  "salesFormSchema d \<Longrightarrow>
   fst (postSales d s) =
     Inr \<lparr> invoice_id = currentSalesInvoiceId s,
           invoice_invoiceNumber = sale_invoiceNumber d,
           invoice_customerName = sale_customerName d,
           invoice_date = sale_date d,
           invoice_paymentMethod = sale_paymentMethod d,
           invoice_totalAmount = totalOf (sale_items d),
           invoice_paidAmount =
             Some (if sale_paymentMethod d = ''cash'' then totalOf (sale_items d) else 0),
           invoice_outstandingAmount =
             (if sale_paymentMethod d = ''cash'' then 0 else totalOf (sale_items d)),
           invoice_status = (if sale_paymentMethod d = ''cash'' then ''paid'' else ''open'') \<rparr>"
  by (simp add: postSales_def exec_simps totalOf_def)

lemma postSales_invoices:
  "salesFormSchema d \<Longrightarrow>
   salesInvoices (snd (postSales d s)) =
     (case fst (postSales d s) of
        Inr invoice \<Rightarrow> AList.update (currentSalesInvoiceId s) invoice (salesInvoices s)
      | Inl e \<Rightarrow> salesInvoices s)"
  by (simp add: postSales_def exec_simps totalOf_def)


lemma credit_sale_100_valid: "salesFormSchema credit_sale_100"
  by (simp add: credit_sale_100_def salesFormSchema_def itemSchema_def)


lemma store_after_credit_sale_invoices:
  "salesInvoices store_after_credit_sale =
     [(1, \<lparr> invoice_id = 1, invoice_invoiceNumber = ''INV-1'',
             invoice_customerName = ''Acme'', invoice_date = ''2025-06-29'',
             invoice_paymentMethod = ''credit'', invoice_totalAmount = 100,
             invoice_paidAmount = Some 0, invoice_outstandingAmount = 100,
             invoice_status = ''open'' \<rparr>)]"
  by (simp add: store_after_credit_sale_def postSales_invoices postSales_result
      credit_sale_100_valid)
     (simp add: credit_sale_100_def fresh_store totalOf_def)

lemma store_after_credit_sale_reachable: "reachable store_after_credit_sale"
proof -
  have "reachable (snd (submit (SubmitSale credit_sale_100) MemStorage_new))"
    by (rule reachable.step) (rule reachable.fresh)
  then show ?thesis by (simp add: store_after_credit_sale_def snd_submit)
qed

lemma store_after_credit_sale_transactions:
  "transactions store_after_credit_sale =
     [(1, \<lparr>transaction_id = 1, transaction_date = ''2025-06-29'',
           transaction_reference = ''INV-1'', transaction_description = ''Sale to Acme'',
           transaction_type = ''sale'', transaction_totalAmount = 100\<rparr>)]"
  by (simp add: store_after_credit_sale_def postSales_def exec_simps fresh_store
      credit_sale_100_def salesFormSchema_def itemSchema_def)

lemma store_after_credit_sale_journal:
  "journalEntries store_after_credit_sale =
     [(1, \<lparr>entry_id = 1, entry_transactionId = Some 1, entry_accountId = None,
           entry_accountCode = ''1002'', entry_accountName = ''Accounts Receivable'',
           entry_debitAmount = 100, entry_creditAmount = 0, entry_date = ''2025-06-29'',
           entry_reference = ''INV-1'', entry_description = ''Sale to Acme''\<rparr>),
      (2, \<lparr>entry_id = 2, entry_transactionId = Some 1, entry_accountId = None,
           entry_accountCode = ''4001'', entry_accountName = ''Sales Revenue'',
           entry_debitAmount = 0, entry_creditAmount = 100, entry_date = ''2025-06-29'',
           entry_reference = ''INV-1'', entry_description = ''Sale to Acme''\<rparr>),
      (3, \<lparr>entry_id = 3, entry_transactionId = Some 1, entry_accountId = None,
           entry_accountCode = ''5001'', entry_accountName = ''Cost of Goods Sold'',
           entry_debitAmount = 40, entry_creditAmount = 0, entry_date = ''2025-06-29'',
           entry_reference = ''INV-1'', entry_description = ''COGS for sale to Acme''\<rparr>),
      (4, \<lparr>entry_id = 4, entry_transactionId = Some 1, entry_accountId = None,
           entry_accountCode = ''1003'', entry_accountName = ''Inventory'',
           entry_debitAmount = 0, entry_creditAmount = 40, entry_date = ''2025-06-29'',
           entry_reference = ''INV-1'', entry_description = ''COGS for sale to Acme''\<rparr>)]"
  by (simp add: store_after_credit_sale_def postSales_def exec_simps fresh_store
      credit_sale_100_def salesFormSchema_def itemSchema_def newEntry_def or_null_def
      or_zero_def)



subsection \<open>The journal after a batch\<close>

lemma update_fresh: "k \<notin> fst ` set al \<Longrightarrow> AList.update k v al = al @ [(k, v)]"
  by (induction al) auto

lemma insert_all_fresh:
  "list_all (\<lambda>(k, v). k < n) al \<Longrightarrow>
   insert_all n mk xs al = al @ zip [n ..< n + length xs] (map2 mk [n ..< n + length xs] xs)"
proof (induction xs arbitrary: n al)
  case Nil
  then show ?case by simp
next
  case (Cons x xs)
  from Cons.prems have "n \<notin> fst ` set al" by (auto simp: list_all_iff)
  then have upd: "AList.update n (mk n x) al = al @ [(n, mk n x)]" by (rule update_fresh)
  from Cons.prems have "list_all (\<lambda>(k, v). k < Suc n) (al @ [(n, mk n x)])"
    by (auto simp: list_all_iff)
  from Cons.IH[OF this] upd show ?case
    by (simp add: upt_conv_Cons del: upt_Suc)
qed

lemma entriesOf_append: "entriesOf tid (al @ bl) = entriesOf tid al @ entriesOf tid bl"
  by (simp add: entriesOf_def)

lemma newEntry_sel:
  "entry_transactionId (newEntry n e) = or_null (new_entry_transactionId e)"
  "entry_debitAmount (newEntry n e) = or_zero (new_entry_debitAmount e)"
  "entry_creditAmount (newEntry n e) = or_zero (new_entry_creditAmount e)"
  "entry_accountCode (newEntry n e) = new_entry_accountCode e"
  by (simp_all add: newEntry_def)

lemma entriesOf_new:
  "list_all (\<lambda>e. new_entry_transactionId e = t0) es \<Longrightarrow> length ns = length es \<Longrightarrow>
   entriesOf tid (zip ns (map2 newEntry ns es)) =
     (if or_null t0 = Some tid then map2 newEntry ns es else [])"
proof (induction es arbitrary: ns)
  case Nil
  then show ?case by (simp add: entriesOf_def)
next
  case (Cons e es)
  then obtain n ns' where ns: "ns = n # ns'" by (cases ns) auto
  with Cons.prems have "length ns' = length es" "list_all (\<lambda>e. new_entry_transactionId e = t0) es"
    by simp_all
  from Cons.IH[OF this(2) this(1)] Cons.prems ns show ?case
    by (simp add: entriesOf_def newEntry_sel split: if_splits)
qed

lemma debit_new:
  "length ns = length es \<Longrightarrow>
   sum_list (map entry_debitAmount (map2 newEntry ns es)) =
     sum_list (map (\<lambda>e. or_zero (new_entry_debitAmount e)) es)"
proof (induction es arbitrary: ns)
  case Nil
  then show ?case by simp
next
  case (Cons e es)
  then obtain n ns' where "ns = n # ns'" by (cases ns) auto
  with Cons show ?case by (simp add: newEntry_sel)
qed

lemma credit_new:
  "length ns = length es \<Longrightarrow>
   sum_list (map entry_creditAmount (map2 newEntry ns es)) =
     sum_list (map (\<lambda>e. or_zero (new_entry_creditAmount e)) es)"
proof (induction es arbitrary: ns)
  case Nil
  then show ?case by simp
next
  case (Cons e es)
  then obtain n ns' where "ns = n # ns'" by (cases ns) auto
  with Cons show ?case by (simp add: newEntry_sel)
qed

lemma journal_ok_insert:
  assumes ok: "journal_ok al n"
    and same: "list_all (\<lambda>e. new_entry_transactionId e = t0) es"
    and bal: "sum_list (map (\<lambda>e. or_zero (new_entry_debitAmount e)) es) =
              sum_list (map (\<lambda>e. or_zero (new_entry_creditAmount e)) es)"
    and m: "m = n + length es"
  shows "journal_ok (insert_all n newEntry es al) m"
proof -
  define ns where "ns = [n ..< n + length es]"
  define new where "new = zip ns (map2 newEntry ns es)"
  from ok have keys: "list_all (\<lambda>(k, e). k < n) al" by (simp add: journal_ok_def)
  then have eq: "insert_all n newEntry es al = al @ new"
    unfolding new_def ns_def by (rule insert_all_fresh)
  have len: "length ns = length es" by (simp add: ns_def)
  have "list_all (\<lambda>(k, e). k < m) (al @ new)"
    using keys m by (auto simp: list_all_iff new_def ns_def dest!: set_zip_leftD)
  moreover have "sum_list (map entry_debitAmount (entriesOf tid (al @ new))) =
        sum_list (map entry_creditAmount (entriesOf tid (al @ new)))" for tid
  proof -
    have old: "sum_list (map entry_debitAmount (entriesOf tid al)) =
        sum_list (map entry_creditAmount (entriesOf tid al))"
      using ok by (simp add: journal_ok_def)
    have "sum_list (map entry_debitAmount (entriesOf tid new)) =
        sum_list (map entry_creditAmount (entriesOf tid new))"
    proof (cases "or_null t0 = Some tid")
      case True
      then have "entriesOf tid new = map2 newEntry ns es"
        unfolding new_def by (simp add: entriesOf_new[OF same len])
      then show ?thesis by (simp only: debit_new[OF len] credit_new[OF len] bal)
    next
      case False
      then have "entriesOf tid new = []"
        unfolding new_def by (simp add: entriesOf_new[OF same len])
      then show ?thesis by simp
    qed
    with old show ?thesis by (simp add: entriesOf_append)
  qed
  ultimately show ?thesis by (simp add: eq journal_ok_def)
qed

lemma journal_ok_sale:
  "journal_ok (journalEntries s) (currentJournalEntryId s) \<Longrightarrow>
   journal_ok (journalEntries (snd (postSales d s))) (currentJournalEntryId (snd (postSales d s)))"
  by (cases "salesFormSchema d")
     (auto simp: postSales_def exec_simps or_zero_def simp del: insert_all.simps
       intro!: journal_ok_insert)

lemma journal_ok_collection:
  "journal_ok (journalEntries s) (currentJournalEntryId s) \<Longrightarrow>
   journal_ok (journalEntries (snd (postCollections d s)))
     (currentJournalEntryId (snd (postCollections d s)))"
  by (cases "collectible d s")
     (auto simp: postCollections_def collectible_def exec_simps or_zero_def
       simp del: insert_all.simps split: option.splits intro!: journal_ok_insert)

lemma journal_ok_return:
  "journal_ok (journalEntries s) (currentJournalEntryId s) \<Longrightarrow>
   journal_ok (journalEntries (snd (postSalesReturns d s)))
     (currentJournalEntryId (snd (postSalesReturns d s)))"
  by (cases "returnable d s")
     (auto simp: postSalesReturns_def returnable_def exec_simps or_zero_def
       simp del: insert_all.simps split: option.splits intro!: journal_ok_insert)

lemma reachable_journal: "reachable s \<Longrightarrow> journal_ok (journalEntries s) (currentJournalEntryId s)"
proof (induction rule: reachable.induct)
  case fresh
  show ?case by (simp add: fresh_store journal_ok_def entriesOf_def)
next
  case (step s ev)
  then show ?case
    by (cases ev) (simp_all add: snd_submit journal_ok_sale journal_ok_collection journal_ok_return)
qed



section \<open>The accounting equation\<close>







section \<open>Appending journal entries\<close>

text \<open>
  Claim C2, as stated, fails: \<^verbatim>\<open>createJournalEntries\<close> has no balance check. The batch
  of one debit line of 100 and no credit is not rejected and its entry is stored.
\<close>

theorem createJournalEntries_accepts_unbalanced:
  "sum_list (map (\<lambda>e. or_zero (new_entry_debitAmount e)) lone_debit) = 100 \<and>
   sum_list (map (\<lambda>e. or_zero (new_entry_creditAmount e)) lone_debit) = 0 \<and>
   fst (createJournalEntries lone_debit MemStorage_new) \<noteq> Inl UnbalancedEntryError \<and>
   map (\<lambda>(k, e). (k, entry_accountCode e, entry_debitAmount e, entry_creditAmount e))
     (journalEntries (snd (createJournalEntries lone_debit MemStorage_new))) =
     [(1, ''1001'', 100, 0)]"
  unfolding createJournalEntries_run
  by (simp add: lone_debit_def fresh_store newEntry_def or_zero_def)

text \<open>
  Claim C2, amended. \<^verbatim>\<open>createJournalEntries\<close> never rejects: whatever the totals of
  debits and credits, it resolves with one new entry for each entry of the batch, in
  order and under the consecutive ids that follow the counter, and every one of them is
  stored under its id.
\<close>

theorem createJournalEntries_persists_every_entry:
  "fst (createJournalEntries es s) =
     Inr (map2 newEntry [currentJournalEntryId s ..< currentJournalEntryId s + length es] es) \<and>
   (\<forall>i < length es.
      map_of (journalEntries (snd (createJournalEntries es s))) (currentJournalEntryId s + i) =
        Some (newEntry (currentJournalEntryId s + i) (es ! i)))"
  by (simp add: createJournalEntries_run map_of_insert_all_new)

theorem createJournalEntries_persists_every_entry_witness:
  "fst (createJournalEntries lone_debit MemStorage_new) =
     Inr [\<lparr> entry_id = 1, entry_transactionId = Some 1, entry_accountId = None,
            entry_accountCode = ''1001'', entry_accountName = ''Cash'',
            entry_debitAmount = 100, entry_creditAmount = 0, entry_date = ''2025-06-29'',
            entry_reference = ''INV-1'', entry_description = ''Sale to Acme'' \<rparr>] \<and>
   map_of (journalEntries (snd (createJournalEntries lone_debit MemStorage_new))) 1 =
     Some \<lparr> entry_id = 1, entry_transactionId = Some 1, entry_accountId = None,
            entry_accountCode = ''1001'', entry_accountName = ''Cash'',
            entry_debitAmount = 100, entry_creditAmount = 0, entry_date = ''2025-06-29'',
            entry_reference = ''INV-1'', entry_description = ''Sale to Acme'' \<rparr>"
proof -
  have len: "0 < length lone_debit" by (simp add: lone_debit_def)
  note inst = createJournalEntries_persists_every_entry [of lone_debit MemStorage_new]
  from inst [THEN conjunct1] inst [THEN conjunct2, rule_format, OF len]
  show ?thesis
    unfolding createJournalEntries_run
    by (simp add: lone_debit_def fresh_store newEntry_def or_zero_def or_null_def)
qed

section \<open>Balanced transactions\<close>

text \<open>
  Claim C3. In every store the server can reach, for every transaction recorded by a sale,
  a collection or a sales return, the debit amounts of the journal entries tagged with
  the transaction's id sum to the same number as their credit amounts; the two totals are
  equal, so they also agree within 0.01.
\<close>

theorem every_transaction_is_balanced:
  assumes "reachable s" and "(k, t) \<in> set (transactions s)"
  shows "debitTotal (transaction_id t) s = creditTotal (transaction_id t) s \<and>
         \<bar>debitTotal (transaction_id t) s - creditTotal (transaction_id t) s\<bar> \<le> 1 / 100"
  using reachable_journal[OF assms(1)]
  by (simp add: journal_ok_def debitTotal_def creditTotal_def)

theorem every_transaction_is_balanced_witness:
  "reachable store_after_credit_sale \<and>
   (1, \<lparr> transaction_id = 1, transaction_date = ''2025-06-29'',
          transaction_reference = ''INV-1'', transaction_description = ''Sale to Acme'',
          transaction_type = ''sale'', transaction_totalAmount = 100 \<rparr>)
     \<in> set (transactions store_after_credit_sale) \<and>
   debitTotal 1 store_after_credit_sale = 140 \<and>
   creditTotal 1 store_after_credit_sale = 140"
proof -
  let ?t = "\<lparr> transaction_id = 1, transaction_date = ''2025-06-29'',
          transaction_reference = ''INV-1'', transaction_description = ''Sale to Acme'',
          transaction_type = ''sale'', transaction_totalAmount = 100 \<rparr>"
  have mem: "(1, ?t) \<in> set (transactions store_after_credit_sale)"
    by (simp add: store_after_credit_sale_transactions)
  have d: "debitTotal 1 store_after_credit_sale = 140"
    by (simp add: store_after_credit_sale_journal debitTotal_def entriesOf_def)
  from every_transaction_is_balanced [OF store_after_credit_sale_reachable mem] d mem
    store_after_credit_sale_reachable
  show ?thesis by simp
qed

section \<open>Collections beyond the outstanding amount\<close>

text \<open>
  Claim C4. A well-formed collection request whose amount exceeds the outstanding amount
  of the invoice it refers to is rejected with \<open>ExceedsOutstandingError\<close>, and the
  store after the rejection is the store before it: no collection, transaction or journal
  entry is added, and no account balance or invoice field changes.
\<close>

theorem collection_exceeding_outstanding_rejected:
  "collectionFormSchema d \<Longrightarrow>
   fst (getSalesInvoiceById (coll_invoiceId d) s) = Inr (Some invoice) \<Longrightarrow>
   invoice_outstandingAmount invoice < coll_amount d \<Longrightarrow>
   postCollections d s = (Inl ExceedsOutstandingError, s)"
  by (simp add: postCollections_def getSalesInvoiceById_def run_defs parse_def Let_def)

theorem collection_exceeding_outstanding_rejected_witness:
  "postCollections collection_150 store_after_credit_sale =
     (Inl ExceedsOutstandingError, store_after_credit_sale)"
proof -
  have valid: "collectionFormSchema collection_150"
    by (simp add: collection_150_def collectionFormSchema_def)
  have found: "fst (getSalesInvoiceById (coll_invoiceId collection_150) store_after_credit_sale) =
      Inr (Some \<lparr> invoice_id = 1, invoice_invoiceNumber = ''INV-1'',
             invoice_customerName = ''Acme'', invoice_date = ''2025-06-29'',
             invoice_paymentMethod = ''credit'', invoice_totalAmount = 100,
             invoice_paidAmount = Some 0, invoice_outstandingAmount = 100,
             invoice_status = ''open'' \<rparr>)"
    by (simp add: getSalesInvoiceById_def store_after_credit_sale_invoices collection_150_def)
  show ?thesis
    by (rule collection_exceeding_outstanding_rejected [OF valid found])
       (simp add: collection_150_def)
qed

section \<open>Invoice consistency\<close>











section \<open>The cash sale scenario\<close>



section \<open>The postings of a sales return\<close>



section \<open>Updating an account balance\<close>

lemma find_update_mutate_first:
  "find P (map snd al) = Some a \<Longrightarrow> P v \<Longrightarrow>
   find P (map snd (AList.update k v (mutate_first P v al))) = Some v"
  by (induction al) (auto split: if_splits)

text \<open>
  Claim C8, as stated, fails: with the code 9999, which no account of the fresh store
  has, \<^verbatim>\<open>updateAccountBalance\<close> resolves and leaves the store as it was.
\<close>

theorem updateAccountBalance_unknown_code_no_error:
  "fst (getAccountByCode ''9999'' MemStorage_new) = Inr None \<and>
   updateAccountBalance ''9999'' 100 MemStorage_new = (Inr (), MemStorage_new)"
  by (simp add: updateAccountBalance_def getAccountByCode_def run_defs fresh_store)

text \<open>
  Claim C8, amended. \<^verbatim>\<open>updateAccountBalance\<close> never rejects and resolves with no
  value. With a code that no account has it leaves the store unchanged; with a known code
  the account found for that code afterwards is the one found before with its balance
  replaced by the given number.
\<close>

theorem updateAccountBalance_never_rejects:
  "fst (updateAccountBalance code b s) = Inr () \<and>
   (fst (getAccountByCode code s) = Inr None \<longrightarrow> snd (updateAccountBalance code b s) = s) \<and>
   (\<forall>a. fst (getAccountByCode code s) = Inr (Some a) \<longrightarrow>
      fst (getAccountByCode code (snd (updateAccountBalance code b s))) =
        Inr (Some (a\<lparr> account_balance := b \<rparr>)))"
proof -
  have "find (\<lambda>x. account_code x = code) (map snd (accounts s)) = Some a \<Longrightarrow>
        account_code a = code" for a
    by (auto dest: find_Some_iff[THEN iffD1])
  then show ?thesis
    by (auto simp: updateAccountBalance_def getAccountByCode_def run_defs Let_def
        find_update_mutate_first split: option.splits)
qed

theorem updateAccountBalance_never_rejects_witness:
  "fst (updateAccountBalance ''1001'' 5 MemStorage_new) = Inr () \<and>
   fst (getAccountByCode ''1001'' (snd (updateAccountBalance ''1001'' 5 MemStorage_new))) =
     Inr (Some \<lparr> account_id = 1, account_code = ''1001'', account_name = ''Cash'',
                 account_type = ''asset'', account_balance = 5 \<rparr>)"
proof -
  have found: "fst (getAccountByCode ''1001'' MemStorage_new) =
      Inr (Some \<lparr> account_id = 1, account_code = ''1001'', account_name = ''Cash'',
                  account_type = ''asset'', account_balance = 2375000 \<rparr>)"
    by (simp add: getAccountByCode_def fresh_store)
  note inst = updateAccountBalance_never_rejects [of "''1001''" 5 MemStorage_new]
  from inst [THEN conjunct1] inst [THEN conjunct2, THEN conjunct2, rule_format, OF found]
  show ?thesis by simp
qed

section \<open>Returns and the invoice\<close>

text \<open>
  Claim C9. Processing a sales return, accepted or rejected, leaves the invoice map as
  it was: every invoice, and so its paid amount, outstanding amount and status, reads the
  same before and after the request.
\<close>

theorem returns_leave_invoices_untouched:
  "salesInvoices (snd (postSalesReturns d s)) = salesInvoices s \<and>
   fst (getSalesInvoiceById k (snd (postSalesReturns d s))) = fst (getSalesInvoiceById k s)"
proof -
  have "salesInvoices (snd (postSalesReturns d s)) = salesInvoices s"
    by (simp add: postSalesReturns_def exec_simps split: option.splits)
  then show ?thesis by (simp add: getSalesInvoiceById_def)
qed

theorem returns_leave_invoices_untouched_witness:
  "fst (getSalesInvoiceById 1 (snd (postSalesReturns return_one_unit store_after_credit_sale))) =
     Inr (Some \<lparr> invoice_id = 1, invoice_invoiceNumber = ''INV-1'',
             invoice_customerName = ''Acme'', invoice_date = ''2025-06-29'',
             invoice_paymentMethod = ''credit'', invoice_totalAmount = 100,
             invoice_paidAmount = Some 0, invoice_outstandingAmount = 100,
             invoice_status = ''open'' \<rparr>)"
  using returns_leave_invoices_untouched [of return_one_unit store_after_credit_sale 1]
  by (simp add: getSalesInvoiceById_def store_after_credit_sale_invoices)

section \<open>The opening balances\<close>

text \<open>
  Claim C10. A freshly constructed store holds exactly eight accounts: Cash with balance
  2375000, Inventory with 450000, Share Capital with 2825000 and the other five with
  balance 0. Its balance sheet already satisfies the accounting equation: total assets
  2825000 equal total liabilities 0 plus total equity 2825000.
\<close>

theorem fresh_store_opening_balances:
  "map (\<lambda>(k, a). (account_code a, account_name a, account_balance a)) (accounts MemStorage_new) =
     [ (''1001'', ''Cash'', 2375000),
       (''1002'', ''Accounts Receivable'', 0),
       (''1003'', ''Inventory'', 450000),
       (''2001'', ''Accounts Payable'', 0),
       (''3001'', ''Share Capital - Ordinary'', 2825000),
       (''4001'', ''Sales Revenue'', 0),
       (''4002'', ''Sales Return and Allowances'', 0),
       (''5001'', ''Cost of Goods Sold'', 0) ] \<and>
   length (accounts MemStorage_new) = 8 \<and>
   (\<exists>sheet. fst (getBalanceSheet MemStorage_new) = Inr sheet \<and>
      totalAssets sheet = 2825000 \<and> totalLiabilities sheet = 0 \<and>
      totalEquity sheet = 2825000 \<and>
      totalAssets sheet = totalLiabilities sheet + totalEquity sheet)"
  by (simp add: fresh_store getBalanceSheet_def getAccountByCode_def balance_or_zero_def
      run_defs Let_def)

end
